theory Spec2Isabelle
  imports Complex_Main "HOL-Library.AList"
begin

section \<open>Values of the JavaScript program\<close>

text \<open>
  The merger of \<^verbatim>\<open>src/multi-tenant.ts\<close> works on decoded JSON. A number is an IEEE double:
  here a rational, or one of the three non-finite values. Every double is a rational, so
  every number the program can hold is a value of \<open>jsnum\<close>; addition is exact (the
  runtime rounds a sum to the nearest double, which changes nothing for whole numbers
  below \<open>2^53\<close>, the range of the counters and of epoch milliseconds).
\<close>

datatype jsnum = Fin rat | NaN | PInf | NInf

text \<open>
  An object is the list of its own properties in insertion order; a property is read
  with \<open>map_of\<close> and written with \<open>AList.update\<close> (in place when the key exists,
  appended otherwise). The runtime lists index-like keys before the others; no property
  below depends on the order of the keys. \<open>JUndef\<close> is \<^verbatim>\<open>undefined\<close>: no payload contains it, the program
  produces it when it reads a missing property.
\<close>

datatype json =
    JUndef
  | JNull
  | JBool bool
  | JNum jsnum
  | JStr string
  | JArr "json list"
  | JObj "(string \<times> json) list"

datatype error = TypeError | RangeError | SyntaxError | Unrepresentable

text \<open>
  \<open>TypeError\<close>, \<open>RangeError\<close> and \<open>SyntaxError\<close> are the runtime's exceptions. \<open>Unrepresentable\<close> marks a
  run that stores a named property on an array, a value \<open>json\<close> does not have.
\<close>

fun truthy :: "json \<Rightarrow> bool" where
  "truthy JUndef = False"
| "truthy JNull = False"
| "truthy (JBool b) = b"
| "truthy (JNum (Fin q)) = (q \<noteq> 0)"
| "truthy (JNum NaN) = False"
| "truthy (JNum PInf) = True"
| "truthy (JNum NInf) = True"
| "truthy (JStr s) = (s \<noteq> [])"
| "truthy (JArr xs) = True"
| "truthy (JObj fs) = True"

fun nullish :: "json \<Rightarrow> bool" where
  "nullish JUndef = True"
| "nullish JNull = True"
| "nullish v = False"

fun isArray :: "json \<Rightarrow> bool" where
  "isArray (JArr xs) = True"
| "isArray v = False"

text \<open>
  \<open>get v k\<close> is \<^verbatim>\<open>v.k\<close> for a \<open>v\<close> that is neither null nor undefined. The program
  reads only properties named by the literals of the source (\<^verbatim>\<open>records\<close>, \<^verbatim>\<open>grail\<close>,
  \<^verbatim>\<open>tenant\<close>, ...): none of them is an index, \<^verbatim>\<open>length\<close> or a member of a built-in
  prototype, so on an array, a string, a number or a boolean the read gives
  \<^verbatim>\<open>undefined\<close>.
\<close>

fun get :: "json \<Rightarrow> string \<Rightarrow> json" where
  "get (JObj fs) k = (case map_of fs k of None \<Rightarrow> JUndef | Some v \<Rightarrow> v)"
| "get v k = JUndef"

text \<open>\<^verbatim>\<open>v?.k\<close>, \<^verbatim>\<open>a ?? b\<close> and \<^verbatim>\<open>a || b\<close>.\<close>

definition opt_get :: "json \<Rightarrow> string \<Rightarrow> json" where
  "opt_get v k = (if nullish v then JUndef else get v k)"

definition nullish_or :: "json \<Rightarrow> json \<Rightarrow> json" where
  "nullish_or a b = (if nullish a then b else a)"

definition falsy_or :: "json \<Rightarrow> json \<Rightarrow> json" where
  "falsy_or a b = (if truthy a then a else b)"

section \<open>The normalizer\<close>

text \<open>\<^verbatim>\<open>const asArray = (v) => (Array.isArray(v) ? v : v ? [v] : []);\<close>\<close>

fun asArray :: "json \<Rightarrow> json list" where
  "asArray (JArr xs) = xs"
| "asArray v = (if truthy v then [v] else [])"

record response =
  records :: "json list"
  types :: "json list"
  metadata :: json
  metrics :: "json list"

text \<open>
  \<^verbatim>\<open>
  const normalize = (json) => {
    const r = json?.result ?? json ?? {};
    return { records: asArray(r.records), types: asArray(r.types),
             metadata: r.metadata ?? {}, metrics: asArray(r.metrics) };
  };
  \<close>
\<close>

definition normalize :: "json \<Rightarrow> response" where
  "normalize json =
     (let r = nullish_or (nullish_or (opt_get json ''result'') json) (JObj [])
      in \<lparr> records = asArray (get r ''records''),
           types = asArray (get r ''types''),
           metadata = nullish_or (get r ''metadata'') (JObj []),
           metrics = asArray (get r ''metrics'') \<rparr>)"

text \<open>
  The payload the normalizer reads: the value under \<^verbatim>\<open>result\<close> when the envelope has one
  that is not null, else the envelope itself, else the empty object.
\<close>

definition unwrapped :: "json \<Rightarrow> json" where
  "unwrapped json =
     (if nullish json then JObj []
      else if nullish (get json ''result'') then json
      else get json ''result'')"

text \<open>
  The coercion of one field \<open>v\<close> to a sequence \<open>xs\<close>, in the words of the specification as
  amended: a sequence stays as it is, a value that is not a sequence gives the
  one-element sequence when it is truthy and the empty sequence when it is falsy
  (\<^verbatim>\<open>undefined\<close>, \<^verbatim>\<open>null\<close>, \<^verbatim>\<open>false\<close>, \<^verbatim>\<open>0\<close>, \<^verbatim>\<open>NaN\<close>, the empty string).
\<close>

definition coerced_to_sequence :: "json \<Rightarrow> json list \<Rightarrow> bool" where
  "coerced_to_sequence v xs =
     ((\<forall>ys. v = JArr ys \<longrightarrow> xs = ys) \<and>
      (nullish v \<longrightarrow> xs = []) \<and>
      (\<not> isArray v \<and> truthy v \<longrightarrow> xs = [v]) \<and>
      (\<not> isArray v \<and> \<not> truthy v \<longrightarrow> xs = []))"

section \<open>Numbers, strings and the built-ins the program calls\<close>

fun isFinite :: "jsnum \<Rightarrow> bool" where
  "isFinite (Fin q) = True"
| "isFinite n = False"

fun Math_min :: "jsnum \<Rightarrow> jsnum \<Rightarrow> jsnum" where
  "Math_min NaN b = NaN"
| "Math_min a NaN = NaN"
| "Math_min NInf b = NInf"
| "Math_min a NInf = NInf"
| "Math_min PInf b = b"
| "Math_min a PInf = a"
| "Math_min (Fin x) (Fin y) = Fin (min x y)"

fun Math_max :: "jsnum \<Rightarrow> jsnum \<Rightarrow> jsnum" where
  "Math_max NaN b = NaN"
| "Math_max a NaN = NaN"
| "Math_max PInf b = PInf"
| "Math_max a PInf = PInf"
| "Math_max NInf b = b"
| "Math_max a NInf = a"
| "Math_max (Fin x) (Fin y) = Fin (max x y)"

text \<open>The operator \<^verbatim>\<open>+\<close> on two numbers.\<close>

fun add :: "jsnum \<Rightarrow> jsnum \<Rightarrow> jsnum" where
  "add NaN b = NaN"
| "add a NaN = NaN"
| "add PInf NInf = NaN"
| "add NInf PInf = NaN"
| "add PInf b = PInf"
| "add a PInf = PInf"
| "add NInf b = NInf"
| "add a NInf = NInf"
| "add (Fin x) (Fin y) = Fin (x + y)"

text \<open>
  Three conversions of the runtime are not code of the repository and are parameters of
  the model: the number a string denotes (\<^verbatim>\<open>Number(s)\<close> on a string), the string of a
  number, and \<^verbatim>\<open>Date.parse\<close>, whose result on a string that is not in the ISO format is
  left to the engine by the language standard. Every theorem holds for every choice of
  the three.
\<close>

record runtime =
  StringToNumber :: "string \<Rightarrow> jsnum"
  NumberToString :: "jsnum \<Rightarrow> string"
  Date_parse :: "string \<Rightarrow> jsnum"

fun join :: "string \<Rightarrow> string list \<Rightarrow> string" where
  "join sep [] = []"
| "join sep [x] = x"
| "join sep (x # y # ys) = x @ sep @ join sep (y # ys)"

text \<open>
  \<^verbatim>\<open>String(v)\<close>: an array is the comma-joined strings of its elements, null and
  undefined elements giving the empty string; an object of a payload is
  \<^verbatim>\<open>[object Object]\<close>.
\<close>

fun ToString :: "runtime \<Rightarrow> json \<Rightarrow> string" where
  "ToString rt JUndef = ''undefined''"
| "ToString rt JNull = ''null''"
| "ToString rt (JBool b) = (if b then ''true'' else ''false'')"
| "ToString rt (JNum n) = NumberToString rt n"
| "ToString rt (JStr s) = s"
| "ToString rt (JArr xs) = join '','' (map (\<lambda>x. if nullish x then [] else ToString rt x) xs)"
| "ToString rt (JObj fs) = ''[object Object]''"

text \<open>\<^verbatim>\<open>Number(v)\<close>: an array or an object is converted through its string.\<close>

fun Number :: "runtime \<Rightarrow> json \<Rightarrow> jsnum" where
  "Number rt JUndef = NaN"
| "Number rt JNull = Fin 0"
| "Number rt (JBool b) = Fin (if b then 1 else 0)"
| "Number rt (JNum n) = n"
| "Number rt (JStr s) = StringToNumber rt s"
| "Number rt v = StringToNumber rt (ToString rt v)"

text \<open>\<^verbatim>\<open>const parseTs = (s) => (typeof s === "string" ? Date.parse(s) : Number(s));\<close>\<close>

fun parseTs :: "runtime \<Rightarrow> json \<Rightarrow> jsnum" where
  "parseTs rt (JStr s) = Date_parse rt s"
| "parseTs rt v = Number rt v"

text \<open>The decimal numeral of an index, the name of an array element as a property.\<close>

definition digit_char :: "nat \<Rightarrow> char" where
  "digit_char d = ''0123456789'' ! (d mod 10)"

fun decimal :: "nat \<Rightarrow> string" where
  "decimal n = (if n < 10 then [digit_char n] else decimal (n div 10) @ [digit_char n])"

declare decimal.simps [simp del]

text \<open>
  The own enumerable properties of a value, in order: what \<^verbatim>\<open>{...v}\<close> copies and what
  \<^verbatim>\<open>Object.entries(v)\<close> lists. An array and a string have their elements under the
  indices; null, undefined, a number and a boolean have none. An object of the runtime
  has each key once; \<open>clearjunk\<close> drops the entries of a list that \<open>map_of\<close> never
  reads, a key's second and later ones, and changes no list that has each key once.
\<close>

fun own_props :: "json \<Rightarrow> (string \<times> json) list" where
  "own_props (JObj fs) = AList.clearjunk fs"
| "own_props (JArr xs) = zip (map decimal [0..<length xs]) xs"
| "own_props (JStr s) = zip (map decimal [0..<length s]) (map (\<lambda>c. JStr [c]) s)"
| "own_props v = []"

text \<open>
  \<^verbatim>\<open>v.k = x\<close> in strict mode (the file is a module): on an object the property is
  written, on null, undefined, a number, a string or a boolean the runtime raises
  TypeError. On an array the write succeeds and leaves an array with a named property.
\<close>

fun assign :: "json \<Rightarrow> string \<Rightarrow> json \<Rightarrow> error + json" where
  "assign (JObj fs) k x = Inr (JObj (AList.update k x fs))"
| "assign (JArr xs) k x = Inl Unrepresentable"
| "assign v k x = Inl TypeError"

definition bind_error :: "error + 'a \<Rightarrow> ('a \<Rightarrow> error + 'b) \<Rightarrow> error + 'b" where
  "bind_error r f = (case r of Inl e \<Rightarrow> Inl e | Inr v \<Rightarrow> f v)"

text \<open>
  \<^verbatim>\<open>const deepClone = (obj) => JSON.parse(JSON.stringify(obj));\<close>
  \<open>clone\<close> is the round trip of a value inside the text: a non-finite number is written
  as \<^verbatim>\<open>null\<close>, an undefined array element too, and an undefined property is left out.
  \<^verbatim>\<open>JSON.stringify(undefined)\<close> is \<^verbatim>\<open>undefined\<close>, which \<^verbatim>\<open>JSON.parse\<close> refuses.
\<close>

fun clone :: "json \<Rightarrow> json" where
  "clone (JNum (Fin q)) = JNum (Fin q)"
| "clone (JNum n) = JNull"
| "clone (JArr xs) = JArr (map (\<lambda>x. if x = JUndef then JNull else clone x) xs)"
| "clone (JObj fs) =
     JObj (map (\<lambda>kv. (fst kv, clone (snd kv))) (filter (\<lambda>kv. snd kv \<noteq> JUndef) fs))"
| "clone v = v"

fun deepClone :: "json \<Rightarrow> error + json" where
  "deepClone JUndef = Inl SyntaxError"
| "deepClone v = Inr (clone v)"

section \<open>The timeframe widener\<close>

text \<open>
  \<^verbatim>\<open>const iso = (ms) => new Date(ms).toISOString();\<close>
  The date constructor keeps a finite number of magnitude at most \<open>8.64e15\<close>, truncated to
  a whole number of milliseconds, and makes an invalid date of any other;
  \<^verbatim>\<open>toISOString\<close> raises RangeError on an invalid date and writes a valid one as
  \<^verbatim>\<open>YYYY-MM-DDTHH:mm:ss.sssZ\<close> in UTC, the year with a sign and six digits outside
  \<open>0..9999\<close>. \<open>civil_from_days\<close> is the Gregorian date of a day number counted from
  1970-01-01.
\<close>

definition civil_from_days :: "int \<Rightarrow> int \<times> int \<times> int" where
  "civil_from_days z0 =
     (let z = z0 + 719468;
          era = z div 146097;
          doe = z - era * 146097;
          yoe = (doe - doe div 1460 + doe div 36524 - doe div 146096) div 365;
          doy = doe - (365 * yoe + yoe div 4 - yoe div 100);
          mp = (5 * doy + 2) div 153;
          d = doy - (153 * mp + 2) div 5 + 1;
          m = (if mp < 10 then mp + 3 else mp - 9);
          y = yoe + era * 400
      in (if m \<le> 2 then y + 1 else y, m, d))"

definition digit :: "int \<Rightarrow> char" where
  "digit n = digit_char (nat (n mod 10))"

definition pad2 :: "int \<Rightarrow> string" where
  "pad2 n = [digit (n div 10), digit n]"

definition pad3 :: "int \<Rightarrow> string" where
  "pad3 n = [digit (n div 100), digit (n div 10), digit n]"

definition pad4 :: "int \<Rightarrow> string" where
  "pad4 n = [digit (n div 1000), digit (n div 100), digit (n div 10), digit n]"

definition pad6 :: "int \<Rightarrow> string" where
  "pad6 n = [digit (n div 100000), digit (n div 10000), digit (n div 1000),
             digit (n div 100), digit (n div 10), digit n]"

definition year_string :: "int \<Rightarrow> string" where
  "year_string y =
     (if 0 \<le> y \<and> y \<le> 9999 then pad4 y
      else (if y < 0 then ''-'' else ''+'') @ pad6 \<bar>y\<bar>)"

definition iso_string :: "int \<Rightarrow> string" where
  "iso_string t =
     (let day = t div 86400000;
          msInDay = t mod 86400000;
          ymd = civil_from_days day
      in year_string (fst ymd) @ ''-'' @ pad2 (fst (snd ymd)) @ ''-'' @ pad2 (snd (snd ymd))
         @ ''T'' @ pad2 (msInDay div 3600000) @ '':'' @ pad2 (msInDay div 60000 mod 60)
         @ '':'' @ pad2 (msInDay div 1000 mod 60) @ ''.'' @ pad3 (msInDay mod 1000) @ ''Z'')"

text \<open>Truncation toward zero, the constructor's rounding of a time value.\<close>

definition toInteger :: "rat \<Rightarrow> int" where
  "toInteger q = (if 0 \<le> q then \<lfloor>q\<rfloor> else \<lceil>q\<rceil>)"

fun iso :: "jsnum \<Rightarrow> error + string" where
  "iso (Fin q) =
     (if \<bar>q\<bar> \<le> 8640000000000000 then Inr (iso_string (toInteger q)) else Inl RangeError)"
| "iso n = Inl RangeError"

text \<open>
  \<^verbatim>\<open>
  const globalTimeframe = (records, baseMeta) => {
    let minS = Infinity, maxE = -Infinity;
    for (const rec of records) {
      const s = parseTs(rec?.timeframe?.start);
      const e = parseTs(rec?.timeframe?.end);
      if (Number.isFinite(s)) minS = Math.min(minS, s);
      if (Number.isFinite(e)) maxE = Math.max(maxE, e);
    }
    const iso = (ms) => new Date(ms).toISOString();
    const grail = baseMeta?.grail ?? {};
    return {
      ...baseMeta,
      grail: {
        ...grail,
        analysisTimeframe:
          Number.isFinite(minS) && Number.isFinite(maxE)
            ? { start: iso(minS), end: iso(maxE) }
            : grail.analysisTimeframe,
      },
    };
  };
  \<close>
  \<open>widen_step\<close> is one turn of the loop on the pair \<open>(minS, maxE)\<close>.
\<close>

definition widen_step :: "runtime \<Rightarrow> json \<Rightarrow> jsnum \<times> jsnum \<Rightarrow> jsnum \<times> jsnum" where
  "widen_step rt rec b =
     (let s = parseTs rt (opt_get (opt_get rec ''timeframe'') ''start'');
          e = parseTs rt (opt_get (opt_get rec ''timeframe'') ''end'')
      in (if isFinite s then Math_min (fst b) s else fst b,
          if isFinite e then Math_max (snd b) e else snd b))"

definition minS_maxE :: "runtime \<Rightarrow> json list \<Rightarrow> jsnum \<times> jsnum" where
  "minS_maxE rt recs = fold (widen_step rt) recs (PInf, NInf)"

definition with_timeframe :: "json \<Rightarrow> json \<Rightarrow> json" where
  "with_timeframe baseMeta tf =
     (let grail = nullish_or (opt_get baseMeta ''grail'') (JObj [])
      in JObj (AList.update ''grail''
                 (JObj (AList.update ''analysisTimeframe'' tf (own_props grail)))
                 (own_props baseMeta)))"

definition globalTimeframe :: "runtime \<Rightarrow> json list \<Rightarrow> json \<Rightarrow> error + json" where
  "globalTimeframe rt recs baseMeta =
     (let b = minS_maxE rt recs;
          grail = nullish_or (opt_get baseMeta ''grail'') (JObj [])
      in if isFinite (fst b) \<and> isFinite (snd b)
         then bind_error (iso (fst b)) (\<lambda>s.
              bind_error (iso (snd b)) (\<lambda>e.
              Inr (with_timeframe baseMeta (JObj [(''start'', JStr s), (''end'', JStr e)]))))
         else Inr (with_timeframe baseMeta (get grail ''analysisTimeframe'')))"

section \<open>The type inferencer\<close>

text \<open>
  \<^verbatim>\<open>
  function inferTypesFromRecord(sample) {
    const mappings = {};
    for (const [k, v] of Object.entries(sample ?? {})) {
      if (k === "timeframe" && v && typeof v === "object" && "start" in v && "end" in v) {
        mappings[k] = { type: "timeframe" };
      } else if (k === "interval" && (typeof v === "number" || /^\d+$/.test(String(v)))) {
        mappings[k] = { type: "duration" };
      } else if (Array.isArray(v)) {
        const eltType = v.find((x) => x != null);
        mappings[k] = { type: "array", types: [ { indexRange: [0, Math.max(0, v.length - 1)],
            mappings: { element: { type: typeof eltType === "number" ? "double" : "string" } } } ] };
      } else {
        mappings[k] = { type: "string" };
      }
    }
    return [{ indexRange: [0, 1], mappings }];
  }
  \<close>
\<close>

fun is_object :: "json \<Rightarrow> bool" where
  "is_object JNull = True"
| "is_object (JArr xs) = True"
| "is_object (JObj fs) = True"
| "is_object v = False"

fun is_number :: "json \<Rightarrow> bool" where
  "is_number (JNum n) = True"
| "is_number v = False"

text \<open>\<^verbatim>\<open>k in v\<close> for the names \<^verbatim>\<open>start\<close> and \<^verbatim>\<open>end\<close>, which no prototype has.\<close>

fun has_key :: "string \<Rightarrow> json \<Rightarrow> bool" where
  "has_key k (JObj fs) = (k \<in> fst ` set fs)"
| "has_key k v = False"

definition all_digits :: "string \<Rightarrow> bool" where
  "all_digits s = (s \<noteq> [] \<and> list_all (\<lambda>c. c \<in> set ''0123456789'') s)"

definition scalar_type :: "string \<Rightarrow> json" where
  "scalar_type name = JObj [(''type'', JStr name)]"

definition infer_entry :: "runtime \<Rightarrow> string \<Rightarrow> json \<Rightarrow> json" where
  "infer_entry rt k v =
     (if k = ''timeframe'' \<and> truthy v \<and> is_object v \<and> has_key ''start'' v \<and> has_key ''end'' v
      then scalar_type ''timeframe''
      else if k = ''interval'' \<and> (is_number v \<or> all_digits (ToString rt v))
      then scalar_type ''duration''
      else case v of
        JArr xs \<Rightarrow>
          (let eltType = (case find (\<lambda>x. \<not> nullish x) xs of None \<Rightarrow> JUndef | Some x \<Rightarrow> x)
           in JObj [(''type'', JStr ''array''),
                    (''types'', JArr [JObj
                       [(''indexRange'', JArr [JNum (Fin 0),
                           JNum (Math_max (Fin 0) (Fin (of_nat (length xs) - 1)))]),
                        (''mappings'', JObj [(''element'',
                           scalar_type (if is_number eltType then ''double'' else ''string''))])]])])
      | _ \<Rightarrow> scalar_type ''string'')"

definition inferTypesFromRecord :: "runtime \<Rightarrow> json \<Rightarrow> json list" where
  "inferTypesFromRecord rt sample =
     [JObj [(''indexRange'', JArr [JNum (Fin 0), JNum (Fin 1)]),
            (''mappings'',
             JObj (fold (\<lambda>kv mappings. AList.update (fst kv) (infer_entry rt (fst kv) (snd kv)) mappings)
                     (own_props (nullish_or sample (JObj []))) []))]]"

section \<open>The grouping-clause rewrite\<close>

text \<open>
  \<^verbatim>\<open>
  const addTenantToBy = (txt) =>
    typeof txt === "string"
      ? txt.replace(/by:\s*\{\s*([^}]*)\s*\}/i, (_m, g1) => {
          const parts = g1.split(",").map((s) => s.trim()).filter(Boolean);
          if (!parts.includes("tenant")) parts.push("tenant");
          return `by:{${parts.join(", ")}}`;
        })
      : txt;
  \<close>
  A character is a code unit below 256. \<open>is_space\<close> is the class \<^verbatim>\<open>\s\<close>, which is also
  what \<^verbatim>\<open>trim\<close> removes: tab, line feed, vertical tab, form feed, carriage return,
  space and the no-break space.
\<close>

definition is_space :: "char \<Rightarrow> bool" where
  "is_space c = (c \<in> set [CHR 0x09, CHR 0x0A, CHR 0x0B, CHR 0x0C, CHR 0x0D, CHR 0x20, CHR 0xA0])"

definition trim :: "string \<Rightarrow> string" where
  "trim s = rev (dropWhile is_space (rev (dropWhile is_space s)))"

text \<open>\<^verbatim>\<open>s.split(",")\<close>: the pieces between the commas, one piece more than commas.\<close>

fun split_comma :: "string \<Rightarrow> string list" where
  "split_comma [] = [[]]"
| "split_comma (c # cs) =
     (if c = CHR '','' then [] # split_comma cs
      else (case split_comma cs of p # ps \<Rightarrow> (c # p) # ps | [] \<Rightarrow> [[c]]))"

text \<open>The callback: the text that replaces a match whose group is \<open>g1\<close>.\<close>

definition by_tenant :: "string \<Rightarrow> string" where
  "by_tenant g1 =
     (let parts = filter (\<lambda>s. s \<noteq> []) (map trim (split_comma g1));
          parts' = (if ''tenant'' \<in> set parts then parts else parts @ [''tenant''])
      in ''by:{'' @ join '', '' parts' @ ''}'')"

text \<open>
  The regular expression \<^verbatim>\<open>/by:\s*\{\s*([^}]*)\s*\}/i\<close> at the head of a text. After
  \<^verbatim>\<open>by:\<close> in either letter case, the first \<^verbatim>\<open>\s*\<close> takes every space, so the next
  character must be the opening brace; the second \<^verbatim>\<open>\s*\<close> takes every space again;
  the group takes every character up to the first closing brace, which must exist
  (the last \<^verbatim>\<open>\s*\<close> is then left empty, and no backtracking can end the match
  anywhere else). The result is the group and the text after the match.
\<close>

definition by_prefix :: "string \<Rightarrow> string option" where
  "by_prefix s =
     (case s of
        b # y # c # r \<Rightarrow>
          if b \<in> set ''bB'' \<and> y \<in> set ''yY'' \<and> c = CHR '':'' then Some r else None
      | _ \<Rightarrow> None)"

definition match_here :: "string \<Rightarrow> (string \<times> string) option" where
  "match_here s =
     (case by_prefix s of
        None \<Rightarrow> None
      | Some r \<Rightarrow>
          (case dropWhile is_space r of
             [] \<Rightarrow> None
           | c # r2 \<Rightarrow>
               if c = CHR ''{'' then
                 (let r3 = dropWhile is_space r2
                  in case dropWhile (\<lambda>x. x \<noteq> CHR ''}'') r3 of
                       [] \<Rightarrow> None
                     | _ # post \<Rightarrow> Some (takeWhile (\<lambda>x. x \<noteq> CHR ''}'') r3, post))
               else None))"

text \<open>\<^verbatim>\<open>replace\<close> with a pattern that has no \<^verbatim>\<open>g\<close> flag: the leftmost match only.\<close>

fun replace_first :: "string \<Rightarrow> string" where
  "replace_first [] = []"
| "replace_first (c # cs) =
     (case match_here (c # cs) of
        Some m \<Rightarrow> by_tenant (fst m) @ snd m
      | None \<Rightarrow> c # replace_first cs)"

fun addTenantToBy :: "json \<Rightarrow> json" where
  "addTenantToBy (JStr txt) = JStr (replace_first txt)"
| "addTenantToBy txt = txt"

section \<open>The merger\<close>

text \<open>
  One element of \<^verbatim>\<open>normalized\<close>:
  \<^verbatim>\<open>
  const normalized = responses.map(({ tenant, json }) => {
    const n = normalize(json);
    const withTenant = n.records.map((r) => ({ ...r, tenant }));
    return { tenant, records: withTenant, types: n.types, metadata: n.metadata, metrics: n.metrics };
  });
  \<close>
\<close>

record normalized = response +
  tenant :: string

definition withTenant :: "string \<Rightarrow> json \<Rightarrow> json" where
  "withTenant t r = JObj (AList.update ''tenant'' (JStr t) (own_props r))"

definition normalize_tenant :: "string \<times> json \<Rightarrow> normalized" where
  "normalize_tenant p =
     (let n = normalize (snd p)
      in \<lparr> records = map (withTenant (fst p)) (records n), types = types n,
           metadata = metadata n, metrics = metrics n, tenant = fst p \<rparr>)"

text \<open>\<^verbatim>\<open>xs[0]\<close> and \<^verbatim>\<open>xs?.[0]\<close> on an array.\<close>

definition first :: "json list \<Rightarrow> json" where
  "first xs = (case xs of [] \<Rightarrow> JUndef | x # _ \<Rightarrow> x)"

text \<open>
  \<^verbatim>\<open>
  let types0;
  const baseTypes0 = normalized[0].types?.[0];
  if (baseTypes0) {
    types0 = deepClone(baseTypes0);
    types0.mappings = types0.mappings || {};
  } else {
    types0 = inferTypesFromRecord(allRecords[0])?.[0];
  }
  if (!types0?.mappings) types0.mappings = {};
  if (!types0.mappings.tenant) types0.mappings.tenant = { type: "string" };
  \<close>
\<close>

definition merged_type :: "runtime \<Rightarrow> normalized \<Rightarrow> json list \<Rightarrow> error + json" where
  "merged_type rt n0 allRecords =
     (let baseTypes0 = first (types n0)
      in bind_error
           (if truthy baseTypes0
            then bind_error (deepClone baseTypes0) (\<lambda>c.
                   assign c ''mappings'' (falsy_or (get c ''mappings'') (JObj [])))
            else Inr (first (inferTypesFromRecord rt (first allRecords))))
           (\<lambda>t1. bind_error
              (if \<not> truthy (opt_get t1 ''mappings'') then assign t1 ''mappings'' (JObj [])
               else Inr t1)
           (\<lambda>t2. let m = get t2 ''mappings''
                 in if nullish m then Inl TypeError
                    else if \<not> truthy (get m ''tenant'')
                    then bind_error (assign m ''tenant'' (scalar_type ''string'')) (\<lambda>m'.
                           assign t2 ''mappings'' m')
                    else Inr t2)))"

text \<open>
  \<^verbatim>\<open>
  const totals = { scannedRecords: 0, scannedBytes: 0, scannedDataPoints: 0, executionTimeMilliseconds: 0 };
  const perTenant = {};
  normalized.forEach((n) => {
    const g   = n.metadata?.grail || {};
    const tag = n.tenant;
    const sr  = Number(g.scannedRecords || 0);
    const sb  = Number(g.scannedBytes || 0);
    const sdp = Number(g.scannedDataPoints || 0);
    const etm = Number(n.metadata?.executionTimeMilliseconds || g.executionTimeMilliseconds || 0);
    totals.scannedRecords            += sr;
    totals.scannedBytes              += sb;
    totals.scannedDataPoints         += sdp;
    totals.executionTimeMilliseconds += etm;
    perTenant[`scannedRecords-${tag}`]            = sr;
    perTenant[`scannedBytes-${tag}`]              = sb;
    perTenant[`scannedDataPoints-${tag}`]         = sdp;
    perTenant[`executionTimeMilliseconds-${tag}`] = etm;
  });
  \<close>
\<close>

record totals =
  scannedRecords :: jsnum
  scannedBytes :: jsnum
  scannedDataPoints :: jsnum
  executionTimeMilliseconds :: jsnum

definition grail_of :: "normalized \<Rightarrow> json" where
  "grail_of n = falsy_or (opt_get (metadata n) ''grail'') (JObj [])"

definition sr :: "runtime \<Rightarrow> normalized \<Rightarrow> jsnum" where
  "sr rt n = Number rt (falsy_or (get (grail_of n) ''scannedRecords'') (JNum (Fin 0)))"

definition sb :: "runtime \<Rightarrow> normalized \<Rightarrow> jsnum" where
  "sb rt n = Number rt (falsy_or (get (grail_of n) ''scannedBytes'') (JNum (Fin 0)))"

definition sdp :: "runtime \<Rightarrow> normalized \<Rightarrow> jsnum" where
  "sdp rt n = Number rt (falsy_or (get (grail_of n) ''scannedDataPoints'') (JNum (Fin 0)))"

definition etm :: "runtime \<Rightarrow> normalized \<Rightarrow> jsnum" where
  "etm rt n =
     Number rt (falsy_or (falsy_or (opt_get (metadata n) ''executionTimeMilliseconds'')
                            (get (grail_of n) ''executionTimeMilliseconds''))
                  (JNum (Fin 0)))"

definition tally ::
  "runtime \<Rightarrow> normalized \<Rightarrow> totals \<times> (string \<times> json) list \<Rightarrow> totals \<times> (string \<times> json) list" where
  "tally rt n acc =
     (let tag = tenant n
      in (\<lparr> scannedRecords = add (scannedRecords (fst acc)) (sr rt n),
            scannedBytes = add (scannedBytes (fst acc)) (sb rt n),
            scannedDataPoints = add (scannedDataPoints (fst acc)) (sdp rt n),
            executionTimeMilliseconds = add (executionTimeMilliseconds (fst acc)) (etm rt n) \<rparr>,
          AList.update (''executionTimeMilliseconds-'' @ tag) (JNum (etm rt n))
            (AList.update (''scannedDataPoints-'' @ tag) (JNum (sdp rt n))
              (AList.update (''scannedBytes-'' @ tag) (JNum (sb rt n))
                (AList.update (''scannedRecords-'' @ tag) (JNum (sr rt n)) (snd acc))))))"

definition totals_perTenant :: "runtime \<Rightarrow> normalized list \<Rightarrow> totals \<times> (string \<times> json) list" where
  "totals_perTenant rt normalized =
     fold (tally rt) normalized
       (\<lparr> scannedRecords = Fin 0, scannedBytes = Fin 0, scannedDataPoints = Fin 0,
          executionTimeMilliseconds = Fin 0 \<rparr>, [])"

text \<open>
  \<^verbatim>\<open>
  const tzCandidate = normalized.map((n) => n.metadata?.grail?.timezone).find((z) => z && z !== "Z");
  ... timezone: tzCandidate || baseGrail.timezone || "Z",
  \<close>
\<close>

definition tzCandidate :: "normalized list \<Rightarrow> json" where
  "tzCandidate normalized =
     (case find (\<lambda>z. truthy z \<and> z \<noteq> JStr ''Z'')
             (map (\<lambda>n. opt_get (opt_get (metadata n) ''grail'') ''timezone'') normalized) of
        None \<Rightarrow> JUndef
      | Some z \<Rightarrow> z)"

text \<open>
  \<^verbatim>\<open>
  const metadata = {
    ...widened,
    grail: {
      ...(widened.grail || {}),
      timezone: tzCandidate || baseGrail.timezone || "Z",
      scannedRecords:    totals.scannedRecords,
      scannedBytes:      totals.scannedBytes,
      scannedDataPoints: totals.scannedDataPoints,
      ...perTenant,
    },
    executionTimeMilliseconds: totals.executionTimeMilliseconds,
  };
  \<close>
\<close>

definition spread_into :: "(string \<times> json) list \<Rightarrow> (string \<times> json) list \<Rightarrow> (string \<times> json) list" where
  "spread_into ps fs = fold (\<lambda>kv acc. AList.update (fst kv) (snd kv) acc) ps fs"

definition merged_grail ::
  "json \<Rightarrow> json \<Rightarrow> json \<Rightarrow> totals \<Rightarrow> (string \<times> json) list \<Rightarrow> (string \<times> json) list" where
  "merged_grail widened tz baseGrail tot perTenant =
     spread_into perTenant
       (AList.update ''scannedDataPoints'' (JNum (scannedDataPoints tot))
         (AList.update ''scannedBytes'' (JNum (scannedBytes tot))
           (AList.update ''scannedRecords'' (JNum (scannedRecords tot))
             (AList.update ''timezone''
                (falsy_or (falsy_or tz (get baseGrail ''timezone'')) (JStr ''Z''))
                (own_props (falsy_or (get widened ''grail'') (JObj [])))))))"

definition merged_metadata ::
  "json \<Rightarrow> json \<Rightarrow> json \<Rightarrow> totals \<Rightarrow> (string \<times> json) list \<Rightarrow> json" where
  "merged_metadata widened tz baseGrail tot perTenant =
     JObj (AList.update ''executionTimeMilliseconds'' (JNum (executionTimeMilliseconds tot))
            (AList.update ''grail'' (JObj (merged_grail widened tz baseGrail tot perTenant))
              (own_props widened)))"

text \<open>
  \<^verbatim>\<open>
  if (metadata?.grail) {
    metadata.grail.canonicalQuery = addTenantToBy(metadata.grail.canonicalQuery);
    metadata.grail.query          = addTenantToBy(metadata.grail.query);
  }
  \<close>
  \<open>put\<close> writes a property of the object the lines above have just built.
\<close>

fun put :: "json \<Rightarrow> string \<Rightarrow> json \<Rightarrow> json" where
  "put (JObj fs) k x = JObj (AList.update k x fs)"
| "put v k x = v"

definition rewrite_queries :: "json \<Rightarrow> json" where
  "rewrite_queries md =
     (if truthy (opt_get md ''grail'')
      then (let g1 = put (get md ''grail'') ''canonicalQuery''
                       (addTenantToBy (get (get md ''grail'') ''canonicalQuery''));
                g2 = put g1 ''query'' (addTenantToBy (get g1 ''query''))
            in put md ''grail'' g2)
      else md)"

text \<open>
  \<^verbatim>\<open>
  function mergeMultiTenant(responses) {
    if (!responses.length) return { records: [], types: [], metadata: {}, metrics: [] };
    const normalized = ...;
    const allRecords = normalized.flatMap((n) => n.records);
    ... types0 ...
    const types = [types0];
    const baseMeta  = normalized[0].metadata || {};
    const baseGrail = baseMeta.grail || {};
    ... totals, perTenant ...
    const widened = globalTimeframe(allRecords, baseMeta);
    ... tzCandidate, metadata ...
    const metrics = normalized[0].metrics;
    ... addTenantToBy ...
    return { records: allRecords, types, metadata, metrics };
  }
  \<close>
  A response is the pair of the tenant identifier and the payload.
\<close>

fun mergeMultiTenant :: "runtime \<Rightarrow> (string \<times> json) list \<Rightarrow> error + response" where
  "mergeMultiTenant rt [] = Inr \<lparr> records = [], types = [], metadata = JObj [], metrics = [] \<rparr>"
| "mergeMultiTenant rt (r0 # rest) =
     (let normalized = map normalize_tenant (r0 # rest);
          n0 = normalize_tenant r0;
          allRecords = concat (map records normalized)
      in bind_error (merged_type rt n0 allRecords) (\<lambda>types0.
         let baseMeta = falsy_or (metadata n0) (JObj []);
             baseGrail = falsy_or (get baseMeta ''grail'') (JObj []);
             tp = totals_perTenant rt normalized
         in bind_error (globalTimeframe rt allRecords baseMeta) (\<lambda>widened.
            Inr \<lparr> records = allRecords,
                  types = [types0],
                  metadata = rewrite_queries
                    (merged_metadata widened (tzCandidate normalized) baseGrail (fst tp) (snd tp)),
                  metrics = metrics n0 \<rparr>)))"

text \<open>
  A runtime to run the model on concrete payloads: it reads a string of decimal digits
  as its number and writes a whole number in decimal digits, as every engine does; it
  recognises no other numeral and no date string. The payloads of the examples below
  carry their counters and timestamps as numbers, so no example depends on it; the one
  string an example converts is \<^verbatim>\<open>n/a\<close>, which is not a number for any engine.
\<close>

definition digits_value :: "string \<Rightarrow> nat" where
  "digits_value s = foldl (\<lambda>n c. 10 * n + (of_char c - 48)) 0 s"

definition plain_runtime :: runtime where
  "plain_runtime =
     \<lparr> StringToNumber = (\<lambda>s. if all_digits s then Fin (of_nat (digits_value s)) else NaN),
       NumberToString = (\<lambda>n. case n of
           Fin q \<Rightarrow> (if q < 0 then ''-'' else []) @ decimal (nat \<bar>toInteger q\<bar>)
         | NaN \<Rightarrow> ''NaN'' | PInf \<Rightarrow> ''Infinity'' | NInf \<Rightarrow> ''-Infinity''),
       Date_parse = (\<lambda>s. NaN) \<rparr>"

section \<open>Notions of the specification\<close>

text \<open>
  The records every tenant contributes, stamped, each tenant's in its own order and the
  tenants in input order.
\<close>

definition all_records :: "(string \<times> json) list \<Rightarrow> json list" where
  "all_records responses =
     concat (map (\<lambda>p. map (withTenant (fst p)) (records (normalize (snd p)))) responses)"




text \<open>
  Two tenants, as in the examples of the specification: \<^verbatim>\<open>A\<close> answers under
  \<^verbatim>\<open>result\<close> with two rows (one of them already has a \<^verbatim>\<open>tenant\<close> field), a type
  descriptor, timezone \<^verbatim>\<open>Z\<close> and 100 scanned records; \<^verbatim>\<open>B\<close> answers with one row,
  timezone \<^verbatim>\<open>-04:00\<close> and 50 scanned records. The timeframes are \<open>[10, 20]\<close>, \<open>[5, 15]\<close>
  and \<open>[30, 40]\<close>.
\<close>

definition timeframe_of :: "rat \<Rightarrow> rat \<Rightarrow> json" where
  "timeframe_of s e = JObj [(''start'', JNum (Fin s)), (''end'', JNum (Fin e))]"

definition payload_A :: json where
  "payload_A =
     JObj [(''result'', JObj
       [(''records'', JArr
           [JObj [(''host.name'', JStr ''h1''), (''tenant'', JStr ''other''),
                  (''timeframe'', timeframe_of 10 20)],
            JObj [(''host.name'', JStr ''h2''), (''timeframe'', timeframe_of 5 15)]]),
        (''types'', JArr
           [JObj [(''indexRange'', JArr [JNum (Fin 0), JNum (Fin 1)]),
                  (''mappings'', JObj [(''host.name'', JObj [(''type'', JStr ''string'')]),
                                       (''timeframe'', JObj [(''type'', JStr ''timeframe'')])])]]),
        (''metadata'', JObj
           [(''grail'', JObj
               [(''canonicalQuery'', JStr ''timeseries count(x), by: { host.name }''),
                (''timezone'', JStr ''Z''),
                (''scannedRecords'', JNum (Fin 100)),
                (''scannedBytes'', JNum (Fin 2048)),
                (''analysisTimeframe'', JObj [(''start'', JStr ''s0''), (''end'', JStr ''e0'')])]),
            (''executionTimeMilliseconds'', JNum (Fin 7))]),
        (''metrics'', JArr [JObj [(''metric.key'', JStr ''x'')]])])]"

definition payload_B :: json where
  "payload_B =
     JObj [(''records'', JObj [(''host.name'', JStr ''h3''), (''timeframe'', timeframe_of 30 40)]),
           (''metadata'', JObj
              [(''grail'', JObj
                  [(''timezone'', JStr ''-04:00''),
                   (''scannedRecords'', JNum (Fin 50)),
                   (''executionTimeMilliseconds'', JNum (Fin 3))])])]"

definition two_tenants :: "(string \<times> json) list" where
  "two_tenants = [(''A'', payload_A), (''B'', payload_B)]"









text \<open>
  The parsed timeframe starts and ends of a record sequence, and the finite ones among
  a sequence of numbers. \<^verbatim>\<open>minStart\<close> is the least finite start and \<^verbatim>\<open>maxEnd\<close> the
  greatest finite end; they exist when the finite values are not empty.
\<close>

definition starts :: "runtime \<Rightarrow> json list \<Rightarrow> jsnum list" where
  "starts rt recs = map (\<lambda>rec. parseTs rt (opt_get (opt_get rec ''timeframe'') ''start'')) recs"

definition ends :: "runtime \<Rightarrow> json list \<Rightarrow> jsnum list" where
  "ends rt recs = map (\<lambda>rec. parseTs rt (opt_get (opt_get rec ''timeframe'') ''end'')) recs"

fun finite_values :: "jsnum list \<Rightarrow> rat list" where
  "finite_values [] = []"
| "finite_values (Fin q # xs) = q # finite_values xs"
| "finite_values (x # xs) = finite_values xs"

text \<open>
  The time values the runtime's dates can hold: at most \<open>8.64e15\<close> milliseconds either
  side of the epoch.
\<close>

definition valid_time :: "rat \<Rightarrow> bool" where
  "valid_time q = (\<bar>q\<bar> \<le> 8640000000000000)"










text \<open>
  The inputs on which the merger returns. The first tenant's first type descriptor is
  missing (falsy), or its deep copy is an object whose \<^verbatim>\<open>mappings\<close> is missing (falsy) or
  an object; and the bounds of the merged records' timeframes, when both exist, are
  valid time values.
\<close>

fun is_mapping :: "json \<Rightarrow> bool" where
  "is_mapping (JObj fs) = True"
| "is_mapping v = False"

definition descriptor_ok :: "json \<Rightarrow> bool" where
  "descriptor_ok b =
     (\<not> truthy b \<or>
      (is_mapping (clone b) \<and>
       (\<not> truthy (get (clone b) ''mappings'') \<or> is_mapping (get (clone b) ''mappings''))))"

definition bounds_ok :: "runtime \<Rightarrow> json list \<Rightarrow> bool" where
  "bounds_ok rt recs =
     (finite_values (starts rt recs) = [] \<or> finite_values (ends rt recs) = [] \<or>
      (valid_time (Min (set (finite_values (starts rt recs)))) \<and>
       valid_time (Max (set (finite_values (ends rt recs))))))"

section \<open>Properties of the normalizer\<close>

lemma asArray_coerced: "coerced_to_sequence v (asArray v)"
  by (cases v) (auto simp: coerced_to_sequence_def)

lemma normalize_unwrapped:
  "normalize json =
     \<lparr> records = asArray (get (unwrapped json) ''records''),
       types = asArray (get (unwrapped json) ''types''),
       metadata = nullish_or (get (unwrapped json) ''metadata'') (JObj []),
       metrics = asArray (get (unwrapped json) ''metrics'') \<rparr>"
  by (simp add: normalize_def unwrapped_def nullish_or_def opt_get_def Let_def)

text \<open>
  C2, as the code has it. \<open>normalize\<close> is a total function (no step of it can raise), it
  reads the payload under \<^verbatim>\<open>result\<close> when there is one, and each of \<^verbatim>\<open>records\<close>,
  \<^verbatim>\<open>types\<close> and \<^verbatim>\<open>metrics\<close> is coerced: a sequence is returned unchanged, a null or
  undefined field gives the empty sequence, a truthy scalar or an object gives the
  one-element sequence, and a falsy scalar (\<^verbatim>\<open>0\<close>, \<^verbatim>\<open>false\<close>, the empty string) gives the
  empty sequence, not a one-element one. \<^verbatim>\<open>metadata\<close> is the empty object when the field
  is null or undefined.
\<close>

theorem normalize_coerces_fields:
  "coerced_to_sequence (get (unwrapped json) ''records'') (records (normalize json)) \<and>
   coerced_to_sequence (get (unwrapped json) ''types'') (types (normalize json)) \<and>
   coerced_to_sequence (get (unwrapped json) ''metrics'') (metrics (normalize json)) \<and>
   metadata (normalize json) =
     (if nullish (get (unwrapped json) ''metadata'') then JObj []
      else get (unwrapped json) ''metadata'')"
  by (simp add: normalize_unwrapped asArray_coerced nullish_or_def)

theorem normalize_coerces_fields_witness:
  "records (normalize (JObj [(''result'', JObj [(''records'', JObj [(''a'', JNull)]),
       (''types'', JArr [JStr ''t'', JNull]), (''metrics'', JNum (Fin 0))])]))
     = [JObj [(''a'', JNull)]] \<and>
   types (normalize (JObj [(''result'', JObj [(''records'', JObj [(''a'', JNull)]),
       (''types'', JArr [JStr ''t'', JNull]), (''metrics'', JNum (Fin 0))])]))
     = [JStr ''t'', JNull] \<and>
   metrics (normalize (JObj [(''result'', JObj [(''records'', JObj [(''a'', JNull)]),
       (''types'', JArr [JStr ''t'', JNull]), (''metrics'', JNum (Fin 0))])]))
     = [] \<and>
   metadata (normalize (JObj [(''result'', JObj [(''records'', JObj [(''a'', JNull)]),
       (''types'', JArr [JStr ''t'', JNull]), (''metrics'', JNum (Fin 0))])]))
     = JObj []"
  using normalize_coerces_fields
    [of "JObj [(''result'', JObj [(''records'', JObj [(''a'', JNull)]),
       (''types'', JArr [JStr ''t'', JNull]), (''metrics'', JNum (Fin 0))])]"]
  by (simp add: coerced_to_sequence_def unwrapped_def)

text \<open>
  The claim as written fails on a falsy bare scalar: the field \<^verbatim>\<open>records: 0\<close> is a bare
  scalar, neither null nor undefined nor a sequence, and it is coerced to the empty
  sequence, not to the one-element sequence \<^verbatim>\<open>[0]\<close>.
\<close>

theorem normalize_bare_scalar_counterexample:
  "\<not> nullish (JNum (Fin 0)) \<and> \<not> isArray (JNum (Fin 0)) \<and>
   records (normalize (JObj [(''records'', JNum (Fin 0))])) = [] \<and>
   records (normalize (JObj [(''records'', JNum (Fin 0))])) \<noteq> [JNum (Fin 0)]"
  by (simp add: normalize_def nullish_or_def opt_get_def)

section \<open>Properties of the merger\<close>

subsection \<open>The shape of a run that returns\<close>

lemma map_of_own_props_JObj [simp]: "map_of (own_props (JObj fs)) = map_of fs"
  by (simp add: map_of_clearjunk)

lemma distinct_own_props_JObj [simp]: "distinct (map fst (own_props (JObj fs)))"
  by (simp add: distinct_clearjunk)

declare own_props.simps(1) [simp del]

lemma bind_error_Inr_iff: "bind_error r f = Inr y \<longleftrightarrow> (\<exists>v. r = Inr v \<and> f v = Inr y)"
  by (cases r) (auto simp: bind_error_def)

lemma records_normalize_tenant: "records (normalize_tenant p) = map (withTenant (fst p)) (records (normalize (snd p)))"
  by (simp add: normalize_tenant_def Let_def)

lemma concat_normalized: "concat (map records (map normalize_tenant responses)) = all_records responses"
  by (simp add: all_records_def records_normalize_tenant comp_def)

lemma merge_Inr_cases:
  assumes "mergeMultiTenant rt (r0 # rest) = Inr out"
  obtains types0 widened where
    "merged_type rt (normalize_tenant r0) (all_records (r0 # rest)) = Inr types0"
    "globalTimeframe rt (all_records (r0 # rest)) (falsy_or (metadata (normalize_tenant r0)) (JObj [])) = Inr widened"
    "out = \<lparr> records = all_records (r0 # rest), types = [types0],
       metadata = rewrite_queries (merged_metadata widened (tzCandidate (map normalize_tenant (r0 # rest)))
          (falsy_or (get (falsy_or (metadata (normalize_tenant r0)) (JObj [])) ''grail'') (JObj []))
          (fst (totals_perTenant rt (map normalize_tenant (r0 # rest))))
          (snd (totals_perTenant rt (map normalize_tenant (r0 # rest))))),
       metrics = metrics (normalize_tenant r0) \<rparr>"
  using assms
  by (auto simp: bind_error_Inr_iff Let_def concat_normalized[symmetric] simp del: concat_normalized)

subsection \<open>The empty input, the records and their stamps\<close>

text \<open>
  C9. On the empty input the merger returns the canonical empty response
  \<^verbatim>\<open>{records: [], types: [], metadata: {}, metrics: []}\<close>; it returns, it does not raise.
\<close>

theorem merge_empty: "mergeMultiTenant rt [] = Inr \<lparr> records = [], types = [], metadata = JObj [], metrics = [] \<rparr>"
  by simp










declare mergeMultiTenant.simps [simp del]

subsection \<open>Reading the merged metadata\<close>

























subsection \<open>The timezone\<close>


lemma metadata_normalize_tenant [simp]: "metadata (normalize_tenant p) = metadata (normalize (snd p))"
  by (simp add: normalize_tenant_def Let_def)

lemma tenant_normalize_tenant [simp]: "tenant (normalize_tenant p) = fst p"
  by (simp add: normalize_tenant_def Let_def)









subsection \<open>The keys of the merged metadata\<close>







subsection \<open>The counters\<close>









subsection \<open>The type descriptor\<close>

lemma assign_Inr_iff:
  "assign v k x = Inr t \<longleftrightarrow> (\<exists>fs. v = JObj fs \<and> t = JObj (AList.update k x fs))"
  by (cases v) auto

lemma deepClone_truthy: "truthy v \<Longrightarrow> deepClone v = Inr (clone v)"
  by (cases v) auto









section \<open>Properties of the timeframe widener\<close>

lemma fold_widen_step:
  "fold (widen_step rt) recs (a, b) =
     (fold (\<lambda>s a. if isFinite s then Math_min a s else a) (starts rt recs) a,
      fold (\<lambda>e b. if isFinite e then Math_max b e else b) (ends rt recs) b)"
  by (induction recs arbitrary: a b) (simp_all add: widen_step_def Let_def starts_def ends_def)

lemma fold_min_Fin:
  "fold (\<lambda>s a. if isFinite s then Math_min a s else a) xs (Fin x) =
     Fin (Min (insert x (set (finite_values xs))))"
proof (induction xs arbitrary: x)
  case Nil
  then show ?case by simp
next
  case (Cons s xs)
  show ?case
  proof (cases s)
    case (Fin q)
    have "Min (insert (min x q) (set (finite_values xs))) =
        Min (insert x (insert q (set (finite_values xs))))"
      by (cases "finite_values xs = []") (simp_all add: min.assoc)
    then show ?thesis using Fin Cons.IH by simp
  qed (simp_all add: Cons.IH)
qed

lemma fold_max_Fin:
  "fold (\<lambda>e b. if isFinite e then Math_max b e else b) xs (Fin x) =
     Fin (Max (insert x (set (finite_values xs))))"
proof (induction xs arbitrary: x)
  case Nil
  then show ?case by simp
next
  case (Cons s xs)
  show ?case
  proof (cases s)
    case (Fin q)
    have "Max (insert (max x q) (set (finite_values xs))) =
        Max (insert x (insert q (set (finite_values xs))))"
      by (cases "finite_values xs = []") (simp_all add: max.assoc)
    then show ?thesis using Fin Cons.IH by simp
  qed (simp_all add: Cons.IH)
qed

lemma fold_min_PInf:
  "fold (\<lambda>s a. if isFinite s then Math_min a s else a) xs PInf =
     (if finite_values xs = [] then PInf else Fin (Min (set (finite_values xs))))"
proof (induction xs)
  case Nil
  then show ?case by simp
next
  case (Cons s xs)
  then show ?case by (cases s) (simp_all add: fold_min_Fin)
qed

lemma fold_max_NInf:
  "fold (\<lambda>e b. if isFinite e then Math_max b e else b) xs NInf =
     (if finite_values xs = [] then NInf else Fin (Max (set (finite_values xs))))"
proof (induction xs)
  case Nil
  then show ?case by simp
next
  case (Cons s xs)
  then show ?case by (cases s) (simp_all add: fold_max_Fin)
qed

lemma minS_maxE_eq:
  "minS_maxE rt recs =
     (if finite_values (starts rt recs) = [] then PInf
      else Fin (Min (set (finite_values (starts rt recs)))),
      if finite_values (ends rt recs) = [] then NInf
      else Fin (Max (set (finite_values (ends rt recs)))))"
  by (simp add: minS_maxE_def fold_widen_step fold_min_PInf fold_max_NInf)









section \<open>Properties of the grouping-clause rewrite\<close>





lemma not_space_brace [simp]: "\<not> is_space CHR ''{''" "\<not> is_space CHR ''}''" "\<not> is_space CHR '',''"
  by (simp_all add: is_space_def)








lemma match_here_Nil [simp]: "match_here [] = None"
  by (simp add: match_here_def by_prefix_def)











section \<open>When the merger returns\<close>

lemma is_mapping_iff: "is_mapping v \<longleftrightarrow> (\<exists>fs. v = JObj fs)"
  by (cases v) auto

lemma merged_type_returns:
  assumes "descriptor_ok (first (types n0))"
  shows "\<exists>d. merged_type rt n0 recs = Inr d"
proof (cases "truthy (first (types n0))")
  case True
  with assms obtain fs where c: "clone (first (types n0)) = JObj fs"
    and m: "\<not> truthy (get (JObj fs) ''mappings'') \<or> is_mapping (get (JObj fs) ''mappings'')"
    by (auto simp: descriptor_ok_def is_mapping_iff)
  from m have "\<exists>ms. falsy_or (get (JObj fs) ''mappings'') (JObj []) = JObj ms"
    by (auto simp: falsy_or_def is_mapping_iff)
  then obtain ms where ms: "falsy_or (get (JObj fs) ''mappings'') (JObj []) = JObj ms" by blast
  show ?thesis
    using True c ms
    by (simp add: merged_type_def Let_def deepClone_truthy bind_error_def opt_get_def update_conv')
next
  case False
  then show ?thesis
    by (simp add: merged_type_def Let_def bind_error_def opt_get_def inferTypesFromRecord_def
        first_def)
qed

lemma globalTimeframe_returns:
  assumes "bounds_ok rt recs"
  shows "\<exists>w. globalTimeframe rt recs bm = Inr w"
  using assms
  by (auto simp: bounds_ok_def globalTimeframe_def minS_maxE_eq Let_def bind_error_def valid_time_def)

text \<open>
  The merger returns on every non-empty input whose first type descriptor and
  timeframe bounds are well-formed, so the properties of its output proved above are
  properties of a result that exists.
\<close>

theorem merge_returns:
  assumes "descriptor_ok (first (types (normalize (snd r0))))"
    and "bounds_ok rt (all_records (r0 # rest))"
  shows "\<exists>out. mergeMultiTenant rt (r0 # rest) = Inr out"
proof -
  have t: "types (normalize_tenant r0) = types (normalize (snd r0))"
    by (simp add: normalize_tenant_def Let_def)
  from merged_type_returns[of "normalize_tenant r0" rt "all_records (r0 # rest)"] assms(1) t
  obtain d where d: "merged_type rt (normalize_tenant r0) (all_records (r0 # rest)) = Inr d"
    by auto
  from globalTimeframe_returns[OF assms(2)]
  obtain w where w: "globalTimeframe rt (all_records (r0 # rest))
      (falsy_or (metadata (normalize_tenant r0)) (JObj [])) = Inr w"
    by blast
  have "concat (map records (map normalize_tenant (r0 # rest))) = all_records (r0 # rest)"
    by (rule concat_normalized)
  with d w show ?thesis
    by (simp add: mergeMultiTenant.simps Let_def bind_error_def del: concat_normalized)
qed

theorem merge_returns_witness:
  "descriptor_ok (first (types (normalize payload_A))) \<and>
   bounds_ok plain_runtime (all_records two_tenants) \<and>
   \<not> isl (mergeMultiTenant plain_runtime two_tenants)"
proof -
  have a: "descriptor_ok (first (types (normalize (snd (''A'', payload_A)))))" by code_simp
  have s: "finite_values (starts plain_runtime (all_records ((''A'', payload_A) # [(''B'', payload_B)]))) = [10, 5, 30]"
    by code_simp
  have e: "finite_values (ends plain_runtime (all_records ((''A'', payload_A) # [(''B'', payload_B)]))) = [20, 15, 40]"
    by code_simp
  have b: "bounds_ok plain_runtime (all_records ((''A'', payload_A) # [(''B'', payload_B)]))"
    by (simp add: bounds_ok_def s e valid_time_def)
  from merge_returns[OF a b] a b show ?thesis
    by (auto simp: two_tenants_def)
qed

text \<open>
  On other inputs it raises: TypeError when the first type descriptor is a number,
  RangeError when a timeframe is beyond the last valid date.
\<close>

theorem merge_raises:
  "mergeMultiTenant plain_runtime [(''A'', JObj [(''types'', JNum (Fin 5))])] = Inl TypeError \<and>
   mergeMultiTenant plain_runtime [(''A'', JObj [(''records'', JObj [(''timeframe'', timeframe_of 10000000000000000 10000000000000001)])])] = Inl RangeError"
  by code_simp


text \<open>
  The metrics of the output are the first tenant's normalized metrics, unmodified.
\<close>

theorem merge_metrics:
  assumes "mergeMultiTenant rt (r0 # rest) = Inr out"
  shows "metrics out = metrics (normalize (snd r0))"
proof -
  from assms have "metrics out = metrics (normalize_tenant r0)"
    by (elim merge_Inr_cases) simp
  then show ?thesis by (simp add: normalize_tenant_def Let_def)
qed

theorem merge_metrics_witness:
  "\<not> isl (mergeMultiTenant plain_runtime two_tenants) \<and>
   metrics (projr (mergeMultiTenant plain_runtime two_tenants)) = [JObj [(''metric.key'', JStr ''x'')]]"
proof -
  have r: "\<not> isl (mergeMultiTenant plain_runtime two_tenants)"
    by code_simp
  then obtain out where o: "mergeMultiTenant plain_runtime ((''A'', payload_A) # [(''B'', payload_B)]) = Inr out"
    by (cases "mergeMultiTenant plain_runtime two_tenants") (auto simp: two_tenants_def)
  have m: "metrics (normalize (snd (''A'', payload_A))) = [JObj [(''metric.key'', JStr ''x'')]]"
    by code_simp
  from merge_metrics[OF o] m show ?thesis
    using r o by (simp add: two_tenants_def)
qed

lemma merged_type_returns_only:
  assumes "merged_type rt n0 recs = Inr d"
  shows "descriptor_ok (first (types n0))"
proof (cases "truthy (first (types n0))")
  case True
  let ?c = "clone (first (types n0))"
  let ?m = "falsy_or (get ?c ''mappings'') (JObj [])"
  from assms True obtain fs where c: "?c = JObj fs"
    by (auto simp: merged_type_def Let_def bind_error_Inr_iff deepClone_truthy assign_Inr_iff)
  have tm: "truthy ?m" by (simp add: falsy_or_def)
  from assms True c tm
  have d: "(if \<not> truthy (get ?m ''tenant'')
        then bind_error (assign ?m ''tenant'' (scalar_type ''string''))
               (\<lambda>m'. assign (JObj (AList.update ''mappings'' ?m fs)) ''mappings'' m')
        else Inr (JObj (AList.update ''mappings'' ?m fs))) = Inr d"
    by (auto simp: merged_type_def Let_def bind_error_Inr_iff deepClone_truthy assign_Inr_iff
        opt_get_def update_conv' split: if_splits)
  have "is_mapping ?m"
  proof (cases "truthy (get ?m ''tenant'')")
    case t: True
    then show ?thesis by (cases ?m) auto
  next
    case False
    with d show ?thesis by (auto simp: bind_error_Inr_iff assign_Inr_iff)
  qed
  then have "\<not> truthy (get ?c ''mappings'') \<or> is_mapping (get ?c ''mappings'')"
    by (auto simp: falsy_or_def split: if_splits)
  with c show ?thesis by (simp add: descriptor_ok_def)
next
  case False
  then show ?thesis by (simp add: descriptor_ok_def)
qed

lemma globalTimeframe_returns_only:
  assumes "globalTimeframe rt recs bm = Inr w"
  shows "bounds_ok rt recs"
proof (rule ccontr)
  assume n: "\<not> bounds_ok rt recs"
  then have "globalTimeframe rt recs bm = Inl RangeError"
    by (cases "valid_time (Min (set (finite_values (starts rt recs))))")
      (auto simp: bounds_ok_def globalTimeframe_def minS_maxE_eq Let_def bind_error_def valid_time_def)
  with assms show False by simp
qed

text \<open>
  These are exactly the inputs on which the merger returns: a property proved of every
  output is a property of the merger on every well-formed non-empty input.
\<close>

theorem merge_returns_iff:
  "(\<exists>out. mergeMultiTenant rt (r0 # rest) = Inr out) \<longleftrightarrow>
     descriptor_ok (first (types (normalize (snd r0)))) \<and> bounds_ok rt (all_records (r0 # rest))"
proof
  assume "\<exists>out. mergeMultiTenant rt (r0 # rest) = Inr out"
  then obtain out where o: "mergeMultiTenant rt (r0 # rest) = Inr out" by blast
  have t: "types (normalize_tenant r0) = types (normalize (snd r0))"
    by (simp add: normalize_tenant_def Let_def)
  from o obtain d w where
    "merged_type rt (normalize_tenant r0) (all_records (r0 # rest)) = Inr d"
    "globalTimeframe rt (all_records (r0 # rest)) (falsy_or (metadata (normalize_tenant r0)) (JObj [])) = Inr w"
    by (elim merge_Inr_cases)
  then show "descriptor_ok (first (types (normalize (snd r0)))) \<and> bounds_ok rt (all_records (r0 # rest))"
    using merged_type_returns_only globalTimeframe_returns_only t by metis
next
  assume "descriptor_ok (first (types (normalize (snd r0)))) \<and> bounds_ok rt (all_records (r0 # rest))"
  then show "\<exists>out. mergeMultiTenant rt (r0 # rest) = Inr out"
    using merge_returns by blast
qed

end
